theory Spec2Isabelle
  imports Complex_Main "HOL-Library.AList"
begin

section \<open>Python values, exceptions and builtins\<close>

text \<open>
  The program is \<^verbatim>\<open>audio_taskbar_switcher.pyw\<close>. Its data comes from JSON printed by
  PowerShell and from the mapping file, so the values it handles are the values
  \<^verbatim>\<open>json.loads\<close> builds. A float is its exact value; Python's \<^verbatim>\<open>json\<close> also reads
  \<^verbatim>\<open>Infinity\<close>, \<^verbatim>\<open>-Infinity\<close> and \<^verbatim>\<open>NaN\<close>. A \<^verbatim>\<open>dict\<close> is the list of its items in
  insertion order; the keys of a Python dict are pairwise distinct.
\<close>

datatype pyfloat = Finite rat | PosInf | NegInf | NaN

datatype json =
    JNull
  | JBool bool
  | JInt int
  | JFloat pyfloat
  | JStr string
  | JArr "json list"
  | JObj "(string \<times> json) list"

text \<open>
  The exceptions the modelled code can meet. All of them are subclasses of
  \<^verbatim>\<open>Exception\<close>, so every \<^verbatim>\<open>except Exception\<close> of the source catches each of them.
  \<open>OSError\<close> stands for a failure to start a process or to open, read or write a file.
\<close>

datatype exn =
    AttributeError
  | TypeError
  | ValueError
  | OverflowError
  | JSONDecodeError
  | OSError

definition and_then :: "exn + 'a \<Rightarrow> ('a \<Rightarrow> exn + 'b) \<Rightarrow> exn + 'b" where
  "and_then r f = (case r of Inl e \<Rightarrow> Inl e | Inr x \<Rightarrow> f x)"

text \<open>\<^verbatim>\<open>try: body  except Exception: handler\<close>\<close>

definition try_except :: "exn + 'a \<Rightarrow> (exn \<Rightarrow> exn + 'a) \<Rightarrow> exn + 'a" where
  "try_except body handler = (case body of Inl e \<Rightarrow> handler e | Inr x \<Rightarrow> Inr x)"

text \<open>Truthiness, \<^verbatim>\<open>x or y\<close>, and \<^verbatim>\<open>x == k\<close> for an int literal \<open>k\<close>.\<close>

fun truthy :: "json \<Rightarrow> bool" where
  "truthy JNull = False"
| "truthy (JBool b) = b"
| "truthy (JInt n) = (n \<noteq> 0)"
| "truthy (JFloat f) = (f \<noteq> Finite 0)"
| "truthy (JStr s) = (s \<noteq> [])"
| "truthy (JArr xs) = (xs \<noteq> [])"
| "truthy (JObj kvs) = (kvs \<noteq> [])"

definition py_or :: "json \<Rightarrow> json \<Rightarrow> json" where
  "py_or x y = (if truthy x then x else y)"

fun py_eq_int :: "json \<Rightarrow> int \<Rightarrow> bool" where
  "py_eq_int (JInt n) k = (n = k)"
| "py_eq_int (JBool b) k = ((if b then 1 else 0) = k)"
| "py_eq_int (JFloat (Finite r)) k = (r = of_int k)"
| "py_eq_int _ k = False"

text \<open>
  \<^verbatim>\<open>str.strip()\<close>: the characters below 256 that Python counts as whitespace.
\<close>

definition is_space :: "char \<Rightarrow> bool" where
  "is_space c = ((of_char c :: nat) \<in> {9, 10, 11, 12, 13, 28, 29, 30, 31, 32, 133, 160})"

definition strip :: "string \<Rightarrow> string" where
  "strip s = rev (dropWhile is_space (rev (dropWhile is_space s)))"

text \<open>
  \<^verbatim>\<open>int(s)\<close> for a string. Around the number \<^verbatim>\<open>int\<close> skips the whitespace of C
  (tab to carriage return, and the blank) and the whitespace above 127, which for the
  characters below 256 is next-line and no-break space; unlike \<^verbatim>\<open>str.strip\<close> it does
  not skip the separators 28 to 31. The number is an optional sign and decimal
  digits, where one underscore may stand between two digits. A text with more than
  4300 digits is refused (the interpreter's default \<^verbatim>\<open>int_max_str_digits\<close>), and so is
  an int with more than 4300 digits when it is printed. (Strings are over the
  characters below 256, where the decimal digits are the ASCII ones.)
\<close>

definition is_int_space :: "char \<Rightarrow> bool" where
  "is_int_space c = ((of_char c :: nat) \<in> {9, 10, 11, 12, 13, 32, 133, 160})"

definition int_strip :: "string \<Rightarrow> string" where
  "int_strip s = rev (dropWhile is_int_space (rev (dropWhile is_int_space s)))"

definition int_max_str_digits :: nat where
  "int_max_str_digits = 4300"

definition digit_val :: "char \<Rightarrow> nat option" where
  "digit_val c =
     (let n = (of_char c :: nat) in if 48 \<le> n \<and> n \<le> 57 then Some (n - 48) else None)"

definition is_digit :: "char \<Rightarrow> bool" where
  "is_digit c = (digit_val c \<noteq> None)"

fun digits_from :: "nat \<Rightarrow> string \<Rightarrow> nat option" where
  "digits_from acc [] = Some acc"
| "digits_from acc [c] =
     (case digit_val c of None \<Rightarrow> None | Some v \<Rightarrow> Some (acc * 10 + v))"
| "digits_from acc (c # d # ds) =
     (if c = CHR ''_''
      then (case digit_val d of None \<Rightarrow> None | Some v \<Rightarrow> digits_from (acc * 10 + v) ds)
      else (case digit_val c of None \<Rightarrow> None | Some v \<Rightarrow> digits_from (acc * 10 + v) (d # ds)))"

definition digits :: "string \<Rightarrow> nat option" where
  "digits s =
     (case s of [] \<Rightarrow> None
      | c # cs \<Rightarrow> (case digit_val c of None \<Rightarrow> None | Some v \<Rightarrow> digits_from v cs))"

definition int_of_str :: "string \<Rightarrow> exn + int" where
  "int_of_str s =
     (let t = int_strip s;
          neg = (t \<noteq> [] \<and> hd t = CHR ''-'');
          body = (if t \<noteq> [] \<and> (hd t = CHR ''-'' \<or> hd t = CHR ''+'') then tl t else t)
      in case digits body of
           None \<Rightarrow> Inl ValueError
         | Some n \<Rightarrow>
             if int_max_str_digits < length (filter is_digit body) then Inl ValueError
             else Inr (if neg then - int n else int n))"

text \<open>\<^verbatim>\<open>int(v)\<close>: a float is truncated towards zero.\<close>

fun py_int :: "json \<Rightarrow> exn + int" where
  "py_int (JInt n) = Inr n"
| "py_int (JBool b) = Inr (if b then 1 else 0)"
| "py_int (JFloat (Finite r)) = Inr (if 0 \<le> r then \<lfloor>r\<rfloor> else \<lceil>r\<rceil>)"
| "py_int (JFloat PosInf) = Inl OverflowError"
| "py_int (JFloat NegInf) = Inl OverflowError"
| "py_int (JFloat NaN) = Inl ValueError"
| "py_int (JStr s) = int_of_str s"
| "py_int JNull = Inl TypeError"
| "py_int (JArr xs) = Inl TypeError"
| "py_int (JObj kvs) = Inl TypeError"

text \<open>
  \<^verbatim>\<open>str(n)\<close> for an int, as the f-strings of the source print it, with the limit on
  the number of digits.
\<close>

fun str_nat :: "nat \<Rightarrow> string" where
  "str_nat n =
     (if n < 10 then [char_of (48 + n)]
      else str_nat (n div 10) @ [char_of (48 + n mod 10)])"

definition str_int :: "int \<Rightarrow> string" where
  "str_int i = (if i < 0 then CHR ''-'' # str_nat (nat (- i)) else str_nat (nat i))"

definition py_str_int :: "int \<Rightarrow> exn + string" where
  "py_str_int i =
     (if int_max_str_digits < length (str_nat (nat \<bar>i\<bar>)) then Inl ValueError
      else Inr (str_int i))"

text \<open>
  \<^verbatim>\<open>d.get(k, default)\<close> on a value that should be a dict: any other value has no
  attribute \<^verbatim>\<open>get\<close>.
\<close>

definition dict_get :: "json \<Rightarrow> string \<Rightarrow> json \<Rightarrow> exn + json" where
  "dict_get d k dflt =
     (case d of
        JObj kvs \<Rightarrow> Inr (case map_of kvs k of Some v \<Rightarrow> v | None \<Rightarrow> dflt)
      | _ \<Rightarrow> Inl AttributeError)"

text \<open>\<^verbatim>\<open>for x in v\<close>: a list gives its elements, a string its characters, a dict its keys.\<close>

fun py_iter :: "json \<Rightarrow> exn + json list" where
  "py_iter (JArr xs) = Inr xs"
| "py_iter (JStr s) = Inr (map (\<lambda>c. JStr [c]) s)"
| "py_iter (JObj kvs) = Inr (map (\<lambda>kv. JStr (fst kv)) kvs)"
| "py_iter _ = Inl TypeError"

text \<open>\<^verbatim>\<open>s.strip()\<close> on a value: only a string has the method.\<close>

fun py_strip :: "json \<Rightarrow> exn + string" where
  "py_strip (JStr s) = Inr (strip s)"
| "py_strip _ = Inl AttributeError"

text \<open>\<^verbatim>\<open>table.get(k, default)\<close> on a dict of the program.\<close>

definition get_or :: "('k \<times> 'v) list \<Rightarrow> 'k \<Rightarrow> 'v \<Rightarrow> 'v" where
  "get_or d k dflt = (case map_of d k of Some v \<Rightarrow> v | None \<Rightarrow> dflt)"

declare str_nat.simps [simp del]

section \<open>The outside world\<close>

text \<open>
  What \<^verbatim>\<open>json.loads\<close> makes of a text: the empty string, a text it rejects, or a value.
\<close>

datatype json_text = EmptyText | BadText | JsonText json

text \<open>
  The mapping file \<^verbatim>\<open>monitor_map.json\<close>: absent, present but not readable, or present
  with some contents.
\<close>

datatype file_content = NoFile | Unreadable | Contents json_text

text \<open>
  How \<^verbatim>\<open>open(MAP_FILE, "w")\<close> and the write that follows behave: both succeed, the
  open fails (the file is left as it was), or the file is opened, which truncates
  it, and the write fails after some characters have reached it.
\<close>

datatype write_fault = NoFault | OpenFails | WriteFailsAfter nat

datatype audio_flag = DefaultOnly | CommunicationOnly | AllRoles

text \<open>
  The answers of the external tools during one pass. A field of type \<open>exn + 'a\<close>
  is the outcome of \<^verbatim>\<open>subprocess.run\<close>: it raises, or it returns and the value is
  the captured standard output.
\<close>

record env =
  audio_list_ps :: "exn + json_text"
  default_id_ps :: "string \<Rightarrow> exn + string"
  monitors_ps :: "exn + json_text"
  setdpi_isfile :: bool
  setdpi_value_run :: "int \<Rightarrow> exn + string"
  setdpi_set_run :: "int \<Rightarrow> int option \<Rightarrow> exn + unit"
  set_audio_ps :: "json \<Rightarrow> audio_flag \<Rightarrow> exn + unit"
  map_write :: write_fault
  clock :: rat

section \<open>Audio\<close>

text \<open>\<^verbatim>\<open>json.loads(cp.stdout) if cp.stdout else []\<close>\<close>

fun loads_or_empty :: "json_text \<Rightarrow> exn + json" where
  "loads_or_empty EmptyText = Inr (JArr [])"
| "loads_or_empty BadText = Inl JSONDecodeError"
| "loads_or_empty (JsonText j) = Inr j"

fun is_dict :: "json \<Rightarrow> bool" where
  "is_dict (JObj kvs) = True"
| "is_dict _ = False"

definition list_audio_devices :: "env \<Rightarrow> exn + json" where
  "list_audio_devices e =
     and_then (audio_list_ps e) (\<lambda>stdout.
       try_except
         (and_then (loads_or_empty stdout) (\<lambda>data.
            Inr (if is_dict data then JArr [data] else py_or data (JArr []))))
         (\<lambda>_. Inr (JArr [])))"

definition is_type :: "string \<Rightarrow> json \<Rightarrow> exn + bool" where
  "is_type device_type d =
     and_then (dict_get d ''Device'' (JObj [])) (\<lambda>dev.
     and_then (dict_get dev ''DataFlow'' JNull) (\<lambda>df.
       Inr ((device_type = ''playback'' \<and> py_eq_int df 0) \<or>
            (device_type = ''recording'' \<and> py_eq_int df 1))))"

text \<open>
  The list comprehension of \<^verbatim>\<open>list_devices_by_type_from_raw\<close>: for each element the
  condition \<^verbatim>\<open>d.get("Name") and is_type(d)\<close> is evaluated first.
\<close>

fun devices_of_type :: "string \<Rightarrow> json list \<Rightarrow> exn + (json \<times> json) list" where
  "devices_of_type device_type [] = Inr []"
| "devices_of_type device_type (d # ds) =
     and_then (dict_get d ''Name'' JNull) (\<lambda>nm.
     and_then (if truthy nm then is_type device_type d else Inr False) (\<lambda>keep.
     and_then (if keep
               then and_then (dict_get d ''Name'' (JStr [])) (\<lambda>n.
                    and_then (dict_get d ''ID'' (JStr [])) (\<lambda>i. Inr [(n, i)]))
               else Inr []) (\<lambda>here.
     and_then (devices_of_type device_type ds) (\<lambda>rest. Inr (here @ rest)))))"

definition list_devices_by_type_from_raw ::
    "json \<Rightarrow> string \<Rightarrow> exn + (json \<times> json) list" where
  "list_devices_by_type_from_raw devices device_type =
     and_then (py_iter devices) (devices_of_type device_type)"

text \<open>\<^verbatim>\<open>(cp.stdout or "").strip() or None\<close>\<close>

definition stripped_or_none :: "string \<Rightarrow> string option" where
  "stripped_or_none stdout = (let val = strip stdout in if val = [] then None else Some val)"

definition roles :: "(string \<times> string) list" where
  "roles = [(''output'', ''-Playback''),
            (''output_comm'', ''-PlaybackCommunication''),
            (''input'', ''-Recording''),
            (''input_comm'', ''-RecordingCommunication'')]"

fun default_ids_loop ::
    "env \<Rightarrow> (string \<times> string) list \<Rightarrow> (string \<times> string option) list
       \<Rightarrow> exn + (string \<times> string option) list" where
  "default_ids_loop e [] out = Inr out"
| "default_ids_loop e ((key, param) # rs) out =
     and_then (default_id_ps e param) (\<lambda>stdout.
       default_ids_loop e rs (AList.update key (stripped_or_none stdout) out))"

definition get_default_ids :: "env \<Rightarrow> exn + (string \<times> string option) list" where
  "get_default_ids e = default_ids_loop e roles []"

definition set_default_device :: "env \<Rightarrow> json \<Rightarrow> string \<Rightarrow> exn + unit" where
  "set_default_device e device_id role =
     (if \<not> truthy device_id then Inr ()
      else if role = ''console'' then set_audio_ps e device_id DefaultOnly
      else if role = ''communications'' then set_audio_ps e device_id CommunicationOnly
      else set_audio_ps e device_id AllRoles)"

section \<open>Monitors and DPI\<close>

definition set_dpi :: "env \<Rightarrow> int \<Rightarrow> int \<Rightarrow> exn + unit" where
  "set_dpi e percent monitor =
     (if \<not> setdpi_isfile e then Inr ()
      else setdpi_set_run e percent (if monitor \<noteq> 0 then Some monitor else None))"

definition get_dpi_value :: "env \<Rightarrow> int \<Rightarrow> exn + string option" where
  "get_dpi_value e monitor =
     (if \<not> setdpi_isfile e then Inr None
      else and_then (setdpi_value_run e monitor) (\<lambda>stdout. Inr (stripped_or_none stdout)))"

record monitor =
  index :: int
  name :: json
  fp :: string

definition monitor_of :: "json \<Rightarrow> exn + monitor" where
  "monitor_of m =
     and_then (dict_get m ''Index'' (JInt 0)) (\<lambda>i.
     and_then (py_int (py_or i (JInt 0))) (\<lambda>idx.
     and_then (dict_get m ''Name'' JNull) (\<lambda>n.
     and_then (if truthy n then Inr n
               else and_then (py_str_int idx) (\<lambda>s. Inr (JStr (''Monitor #'' @ s)))) (\<lambda>nm.
     and_then (dict_get m ''Manufacturer'' JNull) (\<lambda>ma.
     and_then (py_strip (py_or ma (JStr []))) (\<lambda>man.
     and_then (dict_get m ''Product'' JNull) (\<lambda>pr.
     and_then (py_strip (py_or pr (JStr []))) (\<lambda>prod.
     and_then (dict_get m ''Serial'' JNull) (\<lambda>se.
     and_then (py_strip (py_or se (JStr ''NOSN''))) (\<lambda>ser.
       Inr \<lparr>index = idx, name = nm, fp = man @ ''|'' @ prod @ ''|'' @ ser\<rparr>))))))))))"

fun monitors_loop :: "json list \<Rightarrow> exn + monitor list" where
  "monitors_loop [] = Inr []"
| "monitors_loop (m # ms) =
     and_then (monitor_of m) (\<lambda>r.
     and_then (monitors_loop ms) (\<lambda>rs. Inr (r # rs)))"

definition fallback_monitors :: "monitor list" where
  "fallback_monitors =
     [\<lparr>index = 1, name = JStr ''Monitor #1'', fp = ''FAKE||1''\<rparr>,
      \<lparr>index = 2, name = JStr ''Monitor #2'', fp = ''FAKE||2''\<rparr>]"

text \<open>The \<^verbatim>\<open>try\<close> block of \<^verbatim>\<open>list_monitors\<close>, then \<^verbatim>\<open>list_monitors\<close> with its handler.\<close>

definition read_monitors :: "json_text \<Rightarrow> exn + monitor list" where
  "read_monitors stdout =
     and_then (loads_or_empty stdout) (\<lambda>arr.
     and_then (py_iter (py_or (if is_dict arr then JArr [arr] else arr) (JArr [])))
       monitors_loop)"

definition list_monitors :: "env \<Rightarrow> exn + monitor list" where
  "list_monitors e =
     and_then (monitors_ps e) (\<lambda>stdout.
       try_except (read_monitors stdout) (\<lambda>_. Inr fallback_monitors))"

section \<open>The cached state and the mapping file\<close>

text \<open>The global \<^verbatim>\<open>state\<close> dict, with its initial value.\<close>

record state =
  outs :: "(json \<times> json) list"
  ins :: "(json \<times> json) list"
  defs :: "(string \<times> string option) list"
  mons :: "monitor list"
  dpi :: "(int \<times> string) list"
  idx_map :: "(string \<times> int) list"
  last_update :: rat

definition initial_state :: state where
  "initial_state =
     \<lparr>outs = [], ins = [], defs = [], mons = [], dpi = [], idx_map = [], last_update = 0\<rparr>"

text \<open>
  What the program can change: the cached state, the mapping file, and the refresh
  threads it has started (\<^verbatim>\<open>refresh_state_async\<close> starts one; \<open>refresh_threads\<close> counts them).
\<close>

record world =
  state :: state
  map_file :: file_content
  refresh_threads :: nat

fun open_read :: "file_content \<Rightarrow> exn + json_text" where
  "open_read NoFile = Inl OSError"
| "open_read Unreadable = Inl OSError"
| "open_read (Contents t) = Inr t"

fun json_load :: "json_text \<Rightarrow> exn + json" where
  "json_load EmptyText = Inl JSONDecodeError"
| "json_load BadText = Inl JSONDecodeError"
| "json_load (JsonText j) = Inr j"

fun dict_items :: "json \<Rightarrow> exn + (string \<times> json) list" where
  "dict_items (JObj kvs) = Inr kvs"
| "dict_items _ = Inl AttributeError"

text \<open>
  The comprehension \<^verbatim>\<open>{str(k): int(v) for k, v in data.items()}\<close>; a key of a
  JSON object is a string already.
\<close>

fun int_items :: "(string \<times> json) list \<Rightarrow> (string \<times> int) list \<Rightarrow> exn + (string \<times> int) list" where
  "int_items [] acc = Inr acc"
| "int_items ((k, v) # kvs) acc =
     and_then (py_int v) (\<lambda>n. int_items kvs (AList.update k n acc))"

text \<open>The \<^verbatim>\<open>try\<close> block of \<^verbatim>\<open>load_map\<close>, then \<^verbatim>\<open>load_map\<close> with its handler.\<close>

definition read_map :: "file_content \<Rightarrow> exn + (string \<times> int) list" where
  "read_map f =
     and_then (open_read f) (\<lambda>text.
     and_then (json_load text) (\<lambda>data.
     and_then (dict_items data) (\<lambda>items. int_items items [])))"

definition load_map :: "file_content \<Rightarrow> exn + (string \<times> int) list" where
  "load_map f = try_except (read_map f) (\<lambda>_. Inr [])"

text \<open>
  \<^verbatim>\<open>json.dump(m, f)\<close> of a table writes the object with the table's items. A write that
  fails after \<open>n\<close> characters leaves a proper prefix of that text in the file: nothing,
  or a text \<^verbatim>\<open>json.load\<close> rejects.
\<close>

definition dump :: "(string \<times> int) list \<Rightarrow> json" where
  "dump m = JObj (map (\<lambda>kv. (fst kv, JInt (snd kv))) m)"

definition truncated :: "nat \<Rightarrow> json_text" where
  "truncated n = (if n = 0 then EmptyText else BadText)"

definition write_map :: "env \<Rightarrow> (string \<times> int) list \<Rightarrow> world \<Rightarrow> (exn + unit) \<times> world" where
  "write_map e m w =
     (case map_write e of
        NoFault \<Rightarrow> (Inr (), w\<lparr>map_file := Contents (JsonText (dump m))\<rparr>)
      | OpenFails \<Rightarrow> (Inl OSError, w)
      | WriteFailsAfter n \<Rightarrow> (Inl OSError, w\<lparr>map_file := Contents (truncated n)\<rparr>))"

text \<open>The handler of \<^verbatim>\<open>save_map\<close> prints a message and returns.\<close>

definition save_map :: "env \<Rightarrow> (string \<times> int) list \<Rightarrow> world \<Rightarrow> (exn + unit) \<times> world" where
  "save_map e m w =
     (case write_map e m w of
        (Inl ex, w') \<Rightarrow> (Inr (), w')
      | (Inr u, w') \<Rightarrow> (Inr u, w'))"

definition refresh_state_async :: "world \<Rightarrow> world" where
  "refresh_state_async w = w\<lparr>refresh_threads := Suc (refresh_threads w)\<rparr>"

definition set_mapping :: "env \<Rightarrow> string \<Rightarrow> int \<Rightarrow> world \<Rightarrow> (exn + unit) \<times> world" where
  "set_mapping e fp' idx w =
     (let new_map = AList.update fp' idx (idx_map (state w));
          w1 = w\<lparr>state := (state w)\<lparr>idx_map := new_map\<rparr>\<rparr>
      in case save_map e new_map w1 of
           (Inl ex, w2) \<Rightarrow> (Inl ex, w2)
         | (Inr u, w2) \<Rightarrow> (Inr (), refresh_state_async w2))"

section \<open>Collecting the state\<close>

text \<open>The loop of \<^verbatim>\<open>collect_state\<close> that reads the DPI of every monitor.\<close>

fun dpi_loop ::
    "env \<Rightarrow> (string \<times> int) list \<Rightarrow> monitor list \<Rightarrow> (int \<times> string) list
       \<Rightarrow> exn + (int \<times> string) list" where
  "dpi_loop e im [] d = Inr d"
| "dpi_loop e im (m # ms) d =
     (let idx = get_or im (fp m) (index m)
      in and_then (get_dpi_value e idx) (\<lambda>val.
           dpi_loop e im ms
             (case val of
                None \<Rightarrow> d
              | Some v \<Rightarrow> if v \<noteq> [] then AList.update idx v d else d)))"

definition collect_state :: "env \<Rightarrow> world \<Rightarrow> exn + world" where
  "collect_state e w =
     and_then (list_audio_devices e) (\<lambda>raw_devices.
     and_then (list_devices_by_type_from_raw raw_devices ''playback'') (\<lambda>outs'.
     and_then (list_devices_by_type_from_raw raw_devices ''recording'') (\<lambda>ins'.
     and_then (get_default_ids e) (\<lambda>defs'.
     and_then (list_monitors e) (\<lambda>mons'.
     and_then (load_map (map_file w)) (\<lambda>idx_map'.
     and_then (dpi_loop e idx_map' mons' []) (\<lambda>dpi'.
       Inr (w\<lparr>state := \<lparr>outs = outs', ins = ins', defs = defs', mons = mons',
                         dpi = dpi', idx_map = idx_map', last_update = clock e\<rparr>\<rparr>))))))))"

text \<open>
  The body of a refresh thread. (Rebuilding the tray menu happens inside the same
  \<^verbatim>\<open>try\<close> and changes nothing of the world modelled here.)
\<close>

definition refresh_worker :: "env \<Rightarrow> world \<Rightarrow> exn + world" where
  "refresh_worker e w = try_except (collect_state e w) (\<lambda>_. Inr w)"

section \<open>Menu handlers\<close>

text \<open>
  The function \<^verbatim>\<open>work\<close> of the handlers: \<^verbatim>\<open>try: ... finally: refresh_state_async()\<close>
  runs the refresh whether the call returned or raised, and an exception then goes on.
\<close>

definition set_dpi_work :: "env \<Rightarrow> int \<Rightarrow> int \<Rightarrow> world \<Rightarrow> (exn + unit) \<times> world" where
  "set_dpi_work e pct idx w = (set_dpi e pct idx, refresh_state_async w)"

definition set_audio_work :: "env \<Rightarrow> json \<Rightarrow> string \<Rightarrow> world \<Rightarrow> (exn + unit) \<times> world" where
  "set_audio_work e device_id role w =
     (set_default_device e device_id role, refresh_state_async w)"

text \<open>
  The three kinds of handler the menu builds (\<^verbatim>\<open>make_set_dpi_handler\<close>,
  \<^verbatim>\<open>make_set_audio_handler\<close>, \<^verbatim>\<open>make_map_choice_handler\<close>) and what running one does.
\<close>

datatype action = SetDpi int int | SetAudio json string | SetMapping string int

fun dispatch :: "env \<Rightarrow> action \<Rightarrow> world \<Rightarrow> (exn + unit) \<times> world" where
  "dispatch e (SetDpi pct idx) w = set_dpi_work e pct idx w"
| "dispatch e (SetAudio device_id role) w = set_audio_work e device_id role w"
| "dispatch e (SetMapping fp' idx) w = set_mapping e fp' idx w"

section \<open>The menu\<close>

definition DPI_CHOICES :: "int list" where
  "DPI_CHOICES = [100, 125, 150, 175, 200, 225, 250, 300]"

definition MAX_IDX_CHOICES :: int where
  "MAX_IDX_CHOICES = 8"

definition max_choice :: "state \<Rightarrow> int" where
  "max_choice st = max MAX_IDX_CHOICES (int (length (mons st)))"

text \<open>
  The index-mapping submenu of \<^verbatim>\<open>_menu_items_dynamic\<close>: for every monitor its current
  index and one item per \<open>n\<close> in \<^verbatim>\<open>range(1, max_choice + 1)\<close>, with its check mark and
  its handler.
\<close>

definition map_menu :: "state \<Rightarrow> (monitor \<times> int \<times> (int \<times> bool \<times> action) list) list" where
  "map_menu st =
     map (\<lambda>m. let current = get_or (idx_map st) (fp m) (index m)
              in (m, current,
                  map (\<lambda>n. (n, n = current, SetMapping (fp m) n)) [1..max_choice st]))
         (mons st)"

definition dpi_menu :: "state \<Rightarrow> (monitor \<times> int \<times> action list) list" where
  "dpi_menu st =
     map (\<lambda>m. let idx = get_or (idx_map st) (fp m) (index m)
              in (m, idx, map (\<lambda>pct. SetDpi pct idx) DPI_CHOICES))
         (mons st)"

definition audio_menu :: "(json \<times> json) list \<Rightarrow> action list" where
  "audio_menu pool =
     (if pool \<noteq> []
      then map (\<lambda>ni. SetAudio (snd ni) ''console'') pool @
           map (\<lambda>ni. SetAudio (snd ni) ''communications'') pool
      else [])"

text \<open>Every handler the menu of a cached state offers.\<close>

definition menu_actions :: "state \<Rightarrow> action list" where
  "menu_actions st =
     concat (map (\<lambda>r. snd (snd r)) (dpi_menu st)) @
     concat (map (\<lambda>r. map (\<lambda>c. snd (snd c)) (snd (snd r))) (map_menu st)) @
     audio_menu (outs st) @ audio_menu (ins st)"

section \<open>Effective indices\<close>

text \<open>
  The effective target index of a monitor, as the specification words it: the mapping
  entry for the monitor's fingerprint, else its ephemeral index.
\<close>

definition effective_index :: "(string \<times> int) list \<Rightarrow> monitor \<Rightarrow> int" where
  "effective_index im m = (case map_of im (fp m) of Some n \<Rightarrow> n | None \<Rightarrow> index m)"

definition effective_indices :: "state \<Rightarrow> int set" where
  "effective_indices st = effective_index (idx_map st) ` set (mons st)"

section \<open>Concrete inputs\<close>

text \<open>
  An environment in which every tool starts and prints nothing, a world with the
  initial state and no mapping file, and the JSON object PowerShell prints for a monitor.
\<close>

definition quiet_env :: env where
  "quiet_env =
     \<lparr>audio_list_ps = Inr EmptyText, default_id_ps = (\<lambda>_. Inr []),
      monitors_ps = Inr EmptyText, setdpi_isfile = True,
      setdpi_value_run = (\<lambda>_. Inr []), setdpi_set_run = (\<lambda>_ _. Inr ()),
      set_audio_ps = (\<lambda>_ _. Inr ()), map_write = NoFault, clock = 0\<rparr>"

definition empty_world :: world where
  "empty_world = \<lparr>state = initial_state, map_file = NoFile, refresh_threads = 0\<rparr>"

definition mon_json :: "int \<Rightarrow> string \<Rightarrow> json" where
  "mon_json i ser =
     JObj [(''Index'', JInt i), (''Name'', JStr ''Screen''), (''Manufacturer'', JStr ''ACM''),
           (''Product'', JStr ''0A1B''), (''Serial'', JStr ser)]"

text \<open>
  Two monitors, the first mapped to index 7 by the mapping file, with scale readings
  at the indices 7 and 2 only.
\<close>

definition two_monitors_env :: env where
  "two_monitors_env =
     quiet_env\<lparr>monitors_ps := Inr (JsonText (JArr [mon_json 1 ''S1'', mon_json 2 ''S2''])),
               setdpi_value_run :=
                 (\<lambda>i. Inr (if i = 7 then ''125'' else if i = 2 then ''150'' else []))\<rparr>"

definition mapped_world :: world where
  "mapped_world =
     empty_world\<lparr>map_file := Contents (JsonText (JObj [(''ACM|0A1B|S1'', JInt 7)]))\<rparr>"

text \<open>One monitor, and a scaling tool that prints nothing.\<close>

definition one_monitor_env :: env where
  "one_monitor_env = quiet_env\<lparr>monitors_ps := Inr (JsonText (mon_json 1 ''S1''))\<rparr>"

text \<open>One monitor, and an audio list with a device whose \<^verbatim>\<open>Device\<close> field is null.\<close>

definition bad_audio_env :: env where
  "bad_audio_env =
     one_monitor_env\<lparr>audio_list_ps :=
       Inr (JsonText (JArr [JObj [(''Name'', JStr ''Speakers''), (''ID'', JStr ''id1''),
                                  (''Device'', JNull)]]))\<rparr>"

text \<open>One monitor, and an audio list that is not JSON.\<close>

definition garbled_audio_env :: env where
  "garbled_audio_env = one_monitor_env\<lparr>audio_list_ps := Inr BadText\<rparr>"

text \<open>Environments in which the write of the mapping file, or every mutation, fails.\<close>

definition disk_full_env :: env where
  "disk_full_env = quiet_env\<lparr>map_write := WriteFailsAfter 0\<rparr>"

definition read_only_env :: env where
  "read_only_env = quiet_env\<lparr>map_write := OpenFails\<rparr>"

definition failing_env :: env where
  "failing_env =
     quiet_env\<lparr>setdpi_set_run := (\<lambda>_ _. Inl OSError), set_audio_ps := (\<lambda>_ _. Inl OSError)\<rparr>"

text \<open>One monitor, and default-role queries whose process cannot be started.\<close>

definition blocked_env :: env where
  "blocked_env = one_monitor_env\<lparr>default_id_ps := (\<lambda>_. Inl OSError)\<rparr>"

text \<open>
  A well-formed audio list with one playback device, whose id is the default for
  media; a monitor list of the wrong shape; a scaling tool that prints nothing; and a
  world whose mapping file does not parse.
\<close>

definition speakers_json :: json where
  "speakers_json =
     JObj [(''Name'', JStr ''Speakers''), (''ID'', JStr ''id1''),
           (''Device'', JObj [(''DataFlow'', JInt 0)])]"

definition degraded_env :: env where
  "degraded_env =
     quiet_env\<lparr>audio_list_ps := Inr (JsonText speakers_json),
               default_id_ps := (\<lambda>p. Inr (if p = ''-Playback'' then ''id1'' else [])),
               monitors_ps := Inr (JsonText (JArr [JInt 3]))\<rparr>"

definition corrupt_world :: world where
  "corrupt_world = empty_world\<lparr>map_file := Contents BadText\<rparr>"

definition degraded_world :: world where
  "degraded_world =
     corrupt_world\<lparr>state :=
       \<lparr>outs = [(JStr ''Speakers'', JStr ''id1'')], ins = [],
        defs = [(''output'', Some ''id1''), (''output_comm'', None), (''input'', None),
                (''input_comm'', None)],
        mons = fallback_monitors, dpi = [], idx_map = [], last_update = 0\<rparr>\<rparr>"

text \<open>Two monitors of which only the one at index 7 gives a scale reading.\<close>

definition half_read_env :: env where
  "half_read_env =
     two_monitors_env\<lparr>setdpi_value_run := (\<lambda>i. Inr (if i = 7 then ''125'' else []))\<rparr>"

text \<open>The worlds these environments lead a refresh pass to.\<close>

definition no_defaults :: "(string \<times> string option) list" where
  "no_defaults =
     [(''output'', None), (''output_comm'', None), (''input'', None), (''input_comm'', None)]"

definition screen1 :: monitor where
  "screen1 = \<lparr>index = 1, name = JStr ''Screen'', fp = ''ACM|0A1B|S1''\<rparr>"

definition screen2 :: monitor where
  "screen2 = \<lparr>index = 2, name = JStr ''Screen'', fp = ''ACM|0A1B|S2''\<rparr>"

definition two_monitors_world :: world where
  "two_monitors_world =
     mapped_world\<lparr>state :=
       \<lparr>outs = [], ins = [], defs = no_defaults, mons = [screen1, screen2],
        dpi = [(7, ''125''), (2, ''150'')],
        idx_map = [(''ACM|0A1B|S1'', 7)], last_update = 0\<rparr>\<rparr>"

definition half_read_world :: world where
  "half_read_world =
     mapped_world\<lparr>state :=
       \<lparr>outs = [], ins = [], defs = no_defaults, mons = [screen1, screen2],
        dpi = [(7, ''125'')],
        idx_map = [(''ACM|0A1B|S1'', 7)], last_update = 0\<rparr>\<rparr>"

definition one_monitor_world :: world where
  "one_monitor_world =
     empty_world\<lparr>state :=
       \<lparr>outs = [], ins = [], defs = no_defaults, mons = [screen1],
        dpi = [], idx_map = [], last_update = 0\<rparr>\<rparr>"

section \<open>Basic facts\<close>

lemma and_then_Inr [simp]: "and_then (Inr x) f = f x"
  by (simp add: and_then_def)

lemma and_then_Inl [simp]: "and_then (Inl ex) f = Inl ex"
  by (simp add: and_then_def)

lemma and_then_eq_Inr: "and_then r f = Inr y \<longleftrightarrow> (\<exists>x. r = Inr x \<and> f x = Inr y)"
  by (cases r) simp_all

lemma try_except_Inr [simp]: "try_except (Inr x) h = Inr x"
  by (simp add: try_except_def)

lemma try_except_Inl [simp]: "try_except (Inl ex) h = h ex"
  by (simp add: try_except_def)

lemma try_except_total: "(\<And>ex. \<exists>x. h ex = Inr x) \<Longrightarrow> \<exists>x. try_except body h = Inr x"
  by (cases body) simp_all

text \<open>The definitions a concrete run unfolds.\<close>

lemmas eval_defs =
  collect_state_def list_audio_devices_def list_devices_by_type_from_raw_def
  get_default_ids_def roles_def list_monitors_def monitor_of_def load_map_def read_map_def
  get_dpi_value_def stripped_or_none_def strip_def is_space_def py_or_def dict_get_def
  get_or_def is_type_def Let_def str_int_def int_of_str_def digits_def digit_val_def
  is_int_space_def int_strip_def int_max_str_digits_def is_digit_def py_str_int_def
  read_monitors_def speakers_json_def degraded_env_def corrupt_world_def degraded_world_def
  fallback_monitors_def
  quiet_env_def empty_world_def mon_json_def two_monitors_env_def mapped_world_def
  one_monitor_env_def bad_audio_env_def garbled_audio_env_def disk_full_env_def
  read_only_env_def failing_env_def half_read_env_def initial_state_def no_defaults_def
  screen1_def screen2_def two_monitors_world_def half_read_world_def one_monitor_world_def

lemma collect_two_monitors:
  "collect_state two_monitors_env mapped_world = Inr two_monitors_world"
  by (simp add: eval_defs)

lemma collect_half_read: "collect_state half_read_env mapped_world = Inr half_read_world"
  by (simp add: eval_defs)

lemma collect_one_monitor: "collect_state one_monitor_env empty_world = Inr one_monitor_world"
  by (simp add: eval_defs)


text \<open>
  \<^verbatim>\<open>int\<close> refuses a text that begins with a separator character, which \<^verbatim>\<open>str.strip\<close>
  would remove, accepts one between next-line and no-break space, and refuses a text
  of 4301 digits.
\<close>

lemma int_of_str_separator:
  "int_of_str (CHR 0x1C # ''12'') = Inl ValueError"
  "strip (CHR 0x1C # ''12'') = ''12''"
  "int_of_str (CHR 0x85 # ''12'' @ [CHR 0xA0]) = Inr 12"
  by (simp_all add: eval_defs)

lemma int_of_str_too_long: "int_of_str (replicate 4301 (CHR ''1'')) = Inl ValueError"
proof -
  let ?s = "replicate 4301 (CHR ''1'')"
  have ns: "\<not> is_int_space (CHR ''1'')" by (simp add: is_int_space_def)
  then have st: "int_strip ?s = ?s"
    by (simp add: int_strip_def dropWhile_eq_self_iff)
  have hd: "hd ?s = CHR ''1''" by simp
  have "filter is_digit ?s = ?s"
    by (simp add: is_digit_def digit_val_def)
  then have "int_max_str_digits < length (filter is_digit ?s)"
    by (simp add: int_max_str_digits_def)
  with st hd show ?thesis
    by (simp add: int_of_str_def Let_def split: option.splits)
qed

section \<open>The scale map of a refresh pass\<close>

lemma stripped_or_none_nonempty: "stripped_or_none s = Some v \<Longrightarrow> v \<noteq> []"
  by (auto simp: stripped_or_none_def Let_def split: if_splits)

lemma get_dpi_value_nonempty: "get_dpi_value e k = Inr (Some v) \<Longrightarrow> v \<noteq> []"
  by (auto simp: get_dpi_value_def and_then_eq_Inr split: if_splits
        dest: stripped_or_none_nonempty)

text \<open>The index the loops of the source compute is the effective index.\<close>

lemma get_or_effective: "get_or im (fp m) (index m) = effective_index im m"
  by (simp add: get_or_def effective_index_def)

lemma effective_index_example:
  "map (effective_index [(''fpA'', 7)])
     [\<lparr>index = 1, name = JNull, fp = ''fpA''\<rparr>, \<lparr>index = 2, name = JNull, fp = ''fpB''\<rparr>]
   = [7, 2]"
  by (simp add: effective_index_def)

lemma dpi_loop_queries:
  "dpi_loop e im ms d = Inr d' \<Longrightarrow> m \<in> set ms \<Longrightarrow>
     \<exists>v. get_dpi_value e (effective_index im m) = Inr v"
proof (induction ms arbitrary: d)
  case Nil
  then show ?case by simp
next
  case (Cons a ms)
  from Cons.prems(1) obtain val where
    val: "get_dpi_value e (effective_index im a) = Inr val"
    and rest: "dpi_loop e im ms
        (case val of None \<Rightarrow> d
         | Some v \<Rightarrow> if v \<noteq> [] then AList.update (effective_index im a) v d else d) = Inr d'"
    by (auto simp: and_then_eq_Inr get_or_effective Let_def)
  show ?case
  proof (cases "m = a")
    case True
    with val show ?thesis by simp
  next
    case False
    with Cons.prems(2) have "m \<in> set ms" by simp
    with Cons.IH [OF rest] show ?thesis .
  qed
qed

lemma dpi_loop_lookup:
  "dpi_loop e im ms d = Inr d' \<Longrightarrow>
     map_of d' k =
       (if k \<in> effective_index im ` set ms
        then (case get_dpi_value e k of Inr (Some v) \<Rightarrow> Some v | _ \<Rightarrow> map_of d k)
        else map_of d k)"
proof (induction ms arbitrary: d)
  case Nil
  then show ?case by simp
next
  case (Cons a ms)
  let ?i = "effective_index im a"
  from Cons.prems obtain val where
    val: "get_dpi_value e ?i = Inr val"
    and rest: "dpi_loop e im ms
        (case val of None \<Rightarrow> d
         | Some v \<Rightarrow> if v \<noteq> [] then AList.update ?i v d else d) = Inr d'"
    by (auto simp: and_then_eq_Inr get_or_effective Let_def)
  show ?case
  proof (cases val)
    case None
    with rest have "dpi_loop e im ms d = Inr d'" by simp
    from Cons.IH [OF this] val None show ?thesis
      by (auto split: sum.splits option.splits)
  next
    case (Some v)
    with val have "v \<noteq> []" by (simp add: get_dpi_value_nonempty)
    with rest Some have "dpi_loop e im ms (AList.update ?i v d) = Inr d'" by simp
    from Cons.IH [OF this] val Some show ?thesis
      by (auto simp: AList.update_conv' split: sum.splits option.splits)
  qed
qed

lemma collect_state_Inr:
  assumes "collect_state e w = Inr w'"
  obtains raw outs' ins' df ms im d where
    "list_audio_devices e = Inr raw"
    "list_devices_by_type_from_raw raw ''playback'' = Inr outs'"
    "list_devices_by_type_from_raw raw ''recording'' = Inr ins'"
    "get_default_ids e = Inr df"
    "list_monitors e = Inr ms"
    "load_map (map_file w) = Inr im"
    "dpi_loop e im ms [] = Inr d"
    "w' = w\<lparr>state := \<lparr>outs = outs', ins = ins', defs = df, mons = ms,
                       dpi = d, idx_map = im, last_update = clock e\<rparr>\<rparr>"
  using assms unfolding collect_state_def and_then_eq_Inr by blast

text \<open>
  C1, as amended. For every Snapshot a refresh pass produces, the key set of its scale
  map is exactly the set of those effective target indices (mapping entry for the
  monitor's fingerprint, else its ephemeral index) at which the scale read gave a
  non-empty value; it is a subset of the effective target indices, not all of them.
\<close>

theorem collect_state_scale_keys:
  assumes "collect_state e w = Inr w'"
  shows "fst ` set (dpi (state w')) =
           {k \<in> effective_indices (state w'). \<exists>v. get_dpi_value e k = Inr (Some v)} \<and>
         fst ` set (dpi (state w')) \<subseteq> effective_indices (state w')"
proof -
  from assms obtain raw outs' ins' df ms im d where
    loop: "dpi_loop e im ms [] = Inr d"
    and w': "w' = w\<lparr>state := \<lparr>outs = outs', ins = ins', defs = df, mons = ms,
                       dpi = d, idx_map = im, last_update = clock e\<rparr>\<rparr>"
    by (rule collect_state_Inr)
  have "k \<in> dom (map_of d) \<longleftrightarrow>
          k \<in> effective_index im ` set ms \<and> (\<exists>v. get_dpi_value e k = Inr (Some v))" for k
    using dpi_loop_lookup [OF loop, of k]
    by (auto simp: dom_def split: sum.splits option.splits if_splits)
  then have "dom (map_of d) =
     {k \<in> effective_index im ` set ms. \<exists>v. get_dpi_value e k = Inr (Some v)}"
    by blast
  with w' have "fst ` set (dpi (state w')) =
      {k \<in> effective_indices (state w'). \<exists>v. get_dpi_value e k = Inr (Some v)}"
    by (simp add: effective_indices_def dom_map_of_conv_image_fst)
  then show ?thesis by blast
qed

theorem collect_state_scale_keys_witness:
  "collect_state half_read_env mapped_world = Inr half_read_world \<and>
   effective_indices (state half_read_world) = {7, 2} \<and>
   fst ` set (dpi (state half_read_world)) = {7} \<and>
   {k \<in> effective_indices (state half_read_world).
      \<exists>v. get_dpi_value half_read_env k = Inr (Some v)} = {7}"
proof -
  have 1: "collect_state half_read_env mapped_world = Inr half_read_world"
    by (rule collect_half_read)
  have 2: "effective_indices (state half_read_world) = {7, 2}"
    by (simp add: eval_defs effective_indices_def effective_index_def)
  have 3: "fst ` set (dpi (state half_read_world)) = {7}"
    by (simp add: eval_defs)
  from collect_state_scale_keys [OF 1] 1 2 3 show ?thesis by simp
qed

text \<open>
  The claim as it was stated fails: with one monitor and a scaling tool that prints
  nothing, the pass yields a Snapshot with effective index 1 and an empty scale map.
\<close>

theorem scale_keys_not_all_effective_indices:
  "collect_state one_monitor_env empty_world = Inr one_monitor_world \<and>
   fst ` set (dpi (state one_monitor_world)) = {} \<and>
   effective_indices (state one_monitor_world) = {1}"
  by (simp add: eval_defs effective_indices_def effective_index_def)

text \<open>
  C2. For every monitor of a collection pass, the scaling tool is asked at the
  monitor's effective index (the mapped index when the fingerprint has a mapping entry,
  the ephemeral index otherwise), and the scale map holds at that index exactly what
  the tool answered: the value when there is one, and no entry at all, rather than a
  default, when the read is absent or empty.
\<close>

theorem collect_state_scale_at_effective_index:
  assumes "collect_state e w = Inr w'" and "m \<in> set (mons (state w'))"
  shows "get_dpi_value e (effective_index (idx_map (state w')) m) =
           Inr (map_of (dpi (state w')) (effective_index (idx_map (state w')) m))"
proof -
  from assms(1) obtain raw outs' ins' df ms im d where
    loop: "dpi_loop e im ms [] = Inr d"
    and w': "w' = w\<lparr>state := \<lparr>outs = outs', ins = ins', defs = df, mons = ms,
                       dpi = d, idx_map = im, last_update = clock e\<rparr>\<rparr>"
    by (rule collect_state_Inr)
  from w' assms(2) have m: "m \<in> set ms" by simp
  from dpi_loop_queries [OF loop m] obtain v where
    v: "get_dpi_value e (effective_index im m) = Inr v" ..
  from m have "effective_index im m \<in> effective_index im ` set ms" by simp
  with dpi_loop_lookup [OF loop, of "effective_index im m"] v
  have "map_of d (effective_index im m) = v"
    by (cases v) simp_all
  with v w' show ?thesis by simp
qed

theorem collect_state_scale_at_effective_index_witness:
  "collect_state two_monitors_env mapped_world = Inr two_monitors_world \<and>
   mons (state two_monitors_world) = [screen1, screen2] \<and>
   effective_index (idx_map (state two_monitors_world)) screen1 = 7 \<and>
   effective_index (idx_map (state two_monitors_world)) screen2 = 2 \<and>
   get_dpi_value two_monitors_env 7 = Inr (map_of (dpi (state two_monitors_world)) 7) \<and>
   get_dpi_value two_monitors_env 2 = Inr (map_of (dpi (state two_monitors_world)) 2)"
proof -
  have 1: "collect_state two_monitors_env mapped_world = Inr two_monitors_world"
    by (rule collect_two_monitors)
  have 2: "mons (state two_monitors_world) = [screen1, screen2]"
    by (simp add: two_monitors_world_def)
  have 3: "effective_index (idx_map (state two_monitors_world)) screen1 = 7"
    by (simp add: eval_defs effective_index_def)
  have 4: "effective_index (idx_map (state two_monitors_world)) screen2 = 2"
    by (simp add: eval_defs effective_index_def)
  from 2 have "screen1 \<in> set (mons (state two_monitors_world))"
    and "screen2 \<in> set (mons (state two_monitors_world))"
    by simp_all
  from this [THEN collect_state_scale_at_effective_index [OF 1]] 1 2 3 4
  show ?thesis by simp
qed

section \<open>What a refresh pass survives\<close>


lemma no_devices [simp]: "list_devices_by_type_from_raw (JArr []) device_type = Inr []"
  by (simp add: list_devices_by_type_from_raw_def)





lemma load_map_total: "\<exists>t. load_map f = Inr t"
  by (simp add: load_map_def try_except_total)








text \<open>
  The queries for the default devices have no guard of their own: when their process
  cannot be started the pass raises as well, and the worker keeps the old Snapshot.
\<close>

lemma refresh_aborts_when_tool_fails_to_start:
  "collect_state blocked_env empty_world = Inl OSError \<and>
   refresh_worker blocked_env empty_world = Inr empty_world"
  by (simp add: eval_defs blocked_env_def refresh_worker_def)

section \<open>The mapping store\<close>

lemma update_fresh: "k \<notin> fst ` set al \<Longrightarrow> AList.update k v al = al @ [(k, v)]"
  by (induction al) auto

lemma set_update_subset: "set (AList.update k v al) \<subseteq> insert (k, v) (set al)"
  by (induction al) auto

text \<open>Reading back what \<^verbatim>\<open>json.dump\<close> wrote gives the table that was written.\<close>

lemma int_items_dump:
  "distinct (map fst (acc @ m)) \<Longrightarrow>
     int_items (map (\<lambda>kv. (fst kv, JInt (snd kv))) m) acc = Inr (acc @ m)"
proof (induction m arbitrary: acc)
  case Nil
  then show ?case by simp
next
  case (Cons a m)
  obtain k v where a: "a = (k, v)" by (cases a)
  from Cons.prems a have fresh: "k \<notin> fst ` set acc" by auto
  from Cons.prems a have "distinct (map fst ((acc @ [(k, v)]) @ m))" by simp
  from Cons.IH [OF this] fresh a show ?case
    by (simp add: update_fresh)
qed

lemma read_map_dump:
  "distinct (map fst m) \<Longrightarrow> read_map (Contents (JsonText (dump m))) = Inr m"
  using int_items_dump [of "[]" m] by (simp add: read_map_def dump_def)

lemma load_map_dump:
  "distinct (map fst m) \<Longrightarrow> load_map (Contents (JsonText (dump m))) = Inr m"
  by (simp add: load_map_def read_map_dump)

lemma save_map_NoFault:
  "map_write e = NoFault \<Longrightarrow>
     save_map e m w = (Inr (), w\<lparr>map_file := Contents (JsonText (dump m))\<rparr>)"
  by (simp add: save_map_def write_map_def)

lemma save_map_returns: "fst (save_map e m w) = Inr ()"
  by (cases "map_write e") (simp_all add: save_map_def write_map_def)

lemma save_map_keeps_state: "state (snd (save_map e m w)) = state w"
  by (cases "map_write e") (simp_all add: save_map_def write_map_def)

lemma save_map_keeps_threads: "refresh_threads (snd (save_map e m w)) = refresh_threads w"
  by (cases "map_write e") (simp_all add: save_map_def write_map_def)

lemma set_mapping_unfold:
  "set_mapping e k n w =
     (Inr (), refresh_state_async
        (snd (save_map e (AList.update k n (idx_map (state w)))
           (w\<lparr>state := (state w)\<lparr>idx_map := AList.update k n (idx_map (state w))\<rparr>\<rparr>))))"
proof -
  let ?m = "AList.update k n (idx_map (state w))"
  let ?w1 = "w\<lparr>state := (state w)\<lparr>idx_map := ?m\<rparr>\<rparr>"
  obtain r w2 where s: "save_map e ?m ?w1 = (r, w2)"
    by (cases "save_map e ?m ?w1")
  with save_map_returns [of e ?m ?w1] have "r = Inr ()" by simp
  with s show ?thesis
    by (simp add: set_mapping_def Let_def)
qed

text \<open>
  The keys of the cached table are pairwise distinct, as those of any Python dict:
  \<^verbatim>\<open>load_map\<close> builds such a table and \<^verbatim>\<open>set_mapping\<close> keeps it so.
\<close>

lemma int_items_distinct:
  "int_items kvs acc = Inr t \<Longrightarrow> distinct (map fst acc) \<Longrightarrow> distinct (map fst t)"
proof (induction kvs arbitrary: acc)
  case Nil
  then show ?case by simp
next
  case (Cons a kvs)
  obtain k v where a: "a = (k, v)" by (cases a)
  with Cons.prems(1) obtain n where
    "int_items kvs (AList.update k n acc) = Inr t"
    by (auto simp: and_then_eq_Inr)
  moreover from Cons.prems(2) have "distinct (map fst (AList.update k n acc))"
    by (rule AList.distinct_update)
  ultimately show ?case by (rule Cons.IH)
qed

lemma load_map_distinct: "load_map f = Inr t \<Longrightarrow> distinct (map fst t)"
proof (cases "read_map f")
  case (Inl ex)
  moreover assume "load_map f = Inr t"
  ultimately show ?thesis by (simp add: load_map_def)
next
  case (Inr t')
  moreover assume "load_map f = Inr t"
  ultimately have "read_map f = Inr t" by (simp add: load_map_def)
  then obtain kvs where "int_items kvs [] = Inr t"
    by (auto simp: read_map_def and_then_eq_Inr)
  then show ?thesis by (rule int_items_distinct) simp
qed

lemma initial_state_distinct: "distinct (map fst (idx_map initial_state))"
  by (simp add: initial_state_def)

lemma collect_state_distinct:
  "collect_state e w = Inr w' \<Longrightarrow> distinct (map fst (idx_map (state w')))"
  by (erule collect_state_Inr) (simp add: load_map_distinct)

lemma set_mapping_distinct:
  "distinct (map fst (idx_map (state w))) \<Longrightarrow>
     distinct (map fst (idx_map (state (snd (set_mapping e k n w)))))"
  by (simp add: set_mapping_unfold refresh_state_async_def save_map_keeps_state
      AList.distinct_update)

text \<open>
  C4, as amended. For every fingerprint \<open>k\<close>, index \<open>n\<close> and cached mapping table (the
  in-memory table, which is the one \<^verbatim>\<open>set_mapping\<close> merges into), when the write of the
  mapping file succeeds, setting the mapping and then loading yields the cached table
  updated at \<open>k\<close>: it contains the entry for \<open>k\<close> with index \<open>n\<close> and every entry of
  the cached table for the other fingerprints. What the file held before does not
  enter the result. (The cached table is a dict: its keys are distinct.)
\<close>

theorem set_mapping_then_load:
  assumes "map_write e = NoFault" and "distinct (map fst (idx_map (state w)))"
  shows "fst (set_mapping e k n w) = Inr () \<and>
         load_map (map_file (snd (set_mapping e k n w))) =
           Inr (AList.update k n (idx_map (state w))) \<and>
         map_of (AList.update k n (idx_map (state w))) k = Some n \<and>
         (\<forall>k' v. k' \<noteq> k \<and> map_of (idx_map (state w)) k' = Some v \<longrightarrow>
            map_of (AList.update k n (idx_map (state w))) k' = Some v)"
proof -
  let ?m = "AList.update k n (idx_map (state w))"
  from assms(2) have d: "distinct (map fst ?m)" by (rule AList.distinct_update)
  from assms(1) have "map_file (snd (set_mapping e k n w)) = Contents (JsonText (dump ?m))"
    by (simp add: set_mapping_unfold save_map_NoFault refresh_state_async_def)
  with d have "load_map (map_file (snd (set_mapping e k n w))) = Inr ?m"
    by (simp add: load_map_dump)
  then show ?thesis
    by (simp add: set_mapping_unfold AList.update_conv')
qed

theorem set_mapping_then_load_witness:
  "map_write quiet_env = NoFault \<and>
   distinct (map fst (idx_map (state two_monitors_world))) \<and>
   idx_map (state two_monitors_world) = [(''ACM|0A1B|S1'', 7)] \<and>
   load_map (map_file (snd (set_mapping quiet_env ''ACM|0A1B|S2'' 3 two_monitors_world))) =
     Inr [(''ACM|0A1B|S1'', 7), (''ACM|0A1B|S2'', 3)]"
proof -
  have 1: "map_write quiet_env = NoFault"
    by (simp add: quiet_env_def)
  have 2: "distinct (map fst (idx_map (state two_monitors_world)))"
    by (simp add: two_monitors_world_def)
  have 3: "idx_map (state two_monitors_world) = [(''ACM|0A1B|S1'', 7)]"
    by (simp add: two_monitors_world_def)
  from set_mapping_then_load [OF 1 2, of "''ACM|0A1B|S2''" 3] 1 2 3 show ?thesis
    by simp
qed

text \<open>
  The claim as it was stated fails. When the file holds an entry that the cached table
  does not have, setting the mapping for another fingerprint and loading gives a
  table without that entry; and when the file cannot be opened for writing, the table
  loaded afterwards does not contain the new entry.
\<close>

theorem set_mapping_drops_file_entry:
  "idx_map (state mapped_world) = [] \<and>
   load_map (map_file mapped_world) = Inr [(''ACM|0A1B|S1'', 7)] \<and>
   map_write quiet_env = NoFault \<and>
   load_map (map_file (snd (set_mapping quiet_env ''ACM|0A1B|S2'' 3 mapped_world))) =
     Inr [(''ACM|0A1B|S2'', 3)] \<and>
   map_write read_only_env = OpenFails \<and>
   load_map (map_file (snd (set_mapping read_only_env ''ACM|0A1B|S2'' 3 mapped_world))) =
     Inr [(''ACM|0A1B|S1'', 7)]"
  by (simp add: set_mapping_def save_map_def write_map_def dump_def refresh_state_async_def
      eval_defs)

text \<open>
  C5. For every state of the mapping file, \<^verbatim>\<open>load_map\<close> returns a table and does not
  raise; the table is empty when the file is missing or unreadable, when its contents
  do not parse, and on any other exception of the read.
\<close>

theorem load_map_fail_soft:
  "(\<exists>t. load_map f = Inr t) \<and>
   (f = NoFile \<or> f = Unreadable \<or> f = Contents EmptyText \<or> f = Contents BadText \<or>
    (\<exists>ex. read_map f = Inl ex) \<longrightarrow> load_map f = Inr [])"
proof -
  have "\<exists>t. load_map f = Inr t"
    by (rule load_map_total)
  moreover have "load_map f = Inr []" if "\<exists>ex. read_map f = Inl ex"
    using that by (auto simp: load_map_def)
  moreover have "\<exists>ex. read_map f = Inl ex"
    if "f = NoFile \<or> f = Unreadable \<or> f = Contents EmptyText \<or> f = Contents BadText"
    using that by (auto simp: read_map_def)
  ultimately show ?thesis by blast
qed

theorem load_map_fail_soft_witness:
  "load_map NoFile = Inr [] \<and> load_map (Contents BadText) = Inr [] \<and>
   read_map (Contents (JsonText (JArr [JInt 1]))) = Inl AttributeError \<and>
   load_map (Contents (JsonText (JArr [JInt 1]))) = Inr []"
proof -
  have "read_map (Contents (JsonText (JArr [JInt 1]))) = Inl AttributeError"
    by (simp add: read_map_def)
  with load_map_fail_soft [of NoFile] load_map_fail_soft [of "Contents BadText"]
    load_map_fail_soft [of "Contents (JsonText (JArr [JInt 1]))"]
  show ?thesis by simp
qed

text \<open>
  C6, as amended. For every mapping table and every failure during the save,
  \<^verbatim>\<open>save_map\<close> does not raise and leaves the cached state alone. When the failure is
  that the file cannot be opened, the prior durable contents are unchanged. When the
  file was opened and the write failed partway, the file holds the truncated text, which
  loads as the empty table: the mapping persisted before is lost.
\<close>

theorem save_map_failure:
  "fst (save_map e m w) = Inr () \<and>
   state (snd (save_map e m w)) = state w \<and>
   (map_write e = OpenFails \<longrightarrow> map_file (snd (save_map e m w)) = map_file w) \<and>
   (\<forall>n. map_write e = WriteFailsAfter n \<longrightarrow>
      map_file (snd (save_map e m w)) = Contents (truncated n) \<and>
      load_map (map_file (snd (save_map e m w))) = Inr [])"
  by (cases "map_write e")
    (simp_all add: save_map_def write_map_def truncated_def load_map_def read_map_def)

theorem save_map_failure_witness:
  "map_write read_only_env = OpenFails \<and>
   map_file (snd (save_map read_only_env [(''ACM|0A1B|S2'', 3)] mapped_world)) =
     map_file mapped_world \<and>
   map_write disk_full_env = WriteFailsAfter 0 \<and>
   map_file (snd (save_map disk_full_env [(''ACM|0A1B|S2'', 3)] mapped_world)) =
     Contents EmptyText"
proof -
  have 1: "map_write read_only_env = OpenFails"
    by (simp add: read_only_env_def quiet_env_def)
  have 2: "map_write disk_full_env = WriteFailsAfter 0"
    by (simp add: disk_full_env_def quiet_env_def)
  from save_map_failure [of read_only_env "[(''ACM|0A1B|S2'', 3)]" mapped_world] 1
  have "map_file (snd (save_map read_only_env [(''ACM|0A1B|S2'', 3)] mapped_world)) =
     map_file mapped_world"
    by simp
  moreover
  from save_map_failure [of disk_full_env "[(''ACM|0A1B|S2'', 3)]" mapped_world] 2
  have "map_file (snd (save_map disk_full_env [(''ACM|0A1B|S2'', 3)] mapped_world)) =
     Contents EmptyText"
    by (simp add: truncated_def)
  ultimately show ?thesis using 1 2 by simp
qed

text \<open>
  The claim as it was stated fails: the file holds the mapping of one monitor, the write
  of a new table fails before any character reaches the opened file, and the file is
  then empty and loads as the empty table.
\<close>

theorem failed_save_loses_mapping:
  "load_map (map_file mapped_world) = Inr [(''ACM|0A1B|S1'', 7)] \<and>
   save_map disk_full_env [(''ACM|0A1B|S1'', 7), (''ACM|0A1B|S2'', 3)] mapped_world =
     (Inr (), mapped_world\<lparr>map_file := Contents EmptyText\<rparr>) \<and>
   map_file (mapped_world\<lparr>map_file := Contents EmptyText\<rparr>) \<noteq> map_file mapped_world \<and>
   load_map (Contents EmptyText) = Inr []"
  by (simp add: eval_defs save_map_def write_map_def truncated_def)

lemma int_items_fails:
  "(k, v) \<in> set kvs \<Longrightarrow> py_int v = Inl ex \<Longrightarrow> \<exists>ex'. int_items kvs acc = Inl ex'"
proof (induction kvs arbitrary: acc)
  case Nil
  then show ?case by simp
next
  case (Cons a kvs)
  obtain k' v' where a: "a = (k', v')" by (cases a)
  show ?case
  proof (cases "py_int v'")
    case (Inl ex')
    with a show ?thesis by simp
  next
    case (Inr n)
    with Cons.prems a have "(k, v) \<in> set kvs" by auto
    from Cons.IH [OF this Cons.prems(2)] Inr a show ?thesis by simp
  qed
qed

lemma int_items_entries:
  "int_items kvs acc = Inr t \<Longrightarrow>
     fst ` set t = fst ` set acc \<union> fst ` set kvs \<and>
     (\<forall>(k, n) \<in> set t. (k, n) \<in> set acc \<or> (\<exists>v. (k, v) \<in> set kvs \<and> py_int v = Inr n))"
proof (induction kvs arbitrary: acc)
  case Nil
  then show ?case by auto
next
  case (Cons a kvs)
  obtain k' v' where a: "a = (k', v')" by (cases a)
  with Cons.prems obtain n' where
    n': "py_int v' = Inr n'" and rest: "int_items kvs (AList.update k' n' acc) = Inr t"
    by (auto simp: and_then_eq_Inr)
  note IH = Cons.IH [OF rest]
  have keys: "fst ` set t = fst ` set acc \<union> fst ` set (a # kvs)"
    using IH a by (auto simp: AList.dom_update)
  have vals: "(k, n) \<in> set acc \<or> (\<exists>v. (k, v) \<in> set (a # kvs) \<and> py_int v = Inr n)"
    if "(k, n) \<in> set t" for k n
  proof -
    from IH that have "(k, n) \<in> set (AList.update k' n' acc) \<or>
        (\<exists>v. (k, v) \<in> set kvs \<and> py_int v = Inr n)"
      by auto
    then show ?thesis
    proof
      assume "(k, n) \<in> set (AList.update k' n' acc)"
      with set_update_subset [of k' n' acc] have "(k, n) = (k', n') \<or> (k, n) \<in> set acc"
        by auto
      with n' a show ?thesis by auto
    next
      assume "\<exists>v. (k, v) \<in> set kvs \<and> py_int v = Inr n"
      then show ?thesis by auto
    qed
  qed
  from keys vals show ?case by auto
qed

text \<open>
  C10. \<^verbatim>\<open>load_map\<close> is all-or-nothing over the entries of the file. If the file parses
  as a JSON object and the value of any one entry cannot be converted to an integer,
  the empty table is returned, whatever the other entries are; the same holds when the
  document is not an object. When the read succeeds, the file holds a JSON object, the
  keys of the table are the (string) keys of that object, and every value of the table
  is the integer \<^verbatim>\<open>int\<close> gives for a value the object has at that key.
\<close>

theorem load_map_all_or_nothing:
  "((\<exists>k v ex. (k, v) \<in> set kvs \<and> py_int v = Inl ex) \<longrightarrow>
      load_map (Contents (JsonText (JObj kvs))) = Inr []) \<and>
   (\<not> is_dict j \<longrightarrow> load_map (Contents (JsonText j)) = Inr []) \<and>
   (\<forall>t. read_map f = Inr t \<longrightarrow>
      load_map f = Inr t \<and>
      (\<exists>kvs'. f = Contents (JsonText (JObj kvs')) \<and> fst ` set t = fst ` set kvs' \<and>
         (\<forall>(k, n) \<in> set t. \<exists>v. (k, v) \<in> set kvs' \<and> py_int v = Inr n)))"
proof (intro conjI allI impI)
  assume "\<exists>k v ex. (k, v) \<in> set kvs \<and> py_int v = Inl ex"
  then obtain k v ex where "(k, v) \<in> set kvs" "py_int v = Inl ex" by blast
  from int_items_fails [OF this, of "[]"] obtain ex' where "int_items kvs [] = Inl ex'" ..
  then show "load_map (Contents (JsonText (JObj kvs))) = Inr []"
    by (simp add: load_map_def read_map_def)
next
  assume "\<not> is_dict j"
  then have "dict_items j = Inl AttributeError" by (cases j) simp_all
  then show "load_map (Contents (JsonText j)) = Inr []"
    by (simp add: load_map_def read_map_def)
next
  fix t
  assume r: "read_map f = Inr t"
  then show "load_map f = Inr t" by (simp add: load_map_def)
  from r obtain body data kvs' where
    "open_read f = Inr body" "json_load body = Inr data" "dict_items data = Inr kvs'"
    and items: "int_items kvs' [] = Inr t"
    by (auto simp: read_map_def and_then_eq_Inr)
  then have f: "f = Contents (JsonText (JObj kvs'))"
    by (cases f; cases body; cases data) simp_all
  from int_items_entries [OF items] f
  show "\<exists>kvs'. f = Contents (JsonText (JObj kvs')) \<and> fst ` set t = fst ` set kvs' \<and>
         (\<forall>(k, n) \<in> set t. \<exists>v. (k, v) \<in> set kvs' \<and> py_int v = Inr n)"
    by auto
qed

theorem load_map_all_or_nothing_witness:
  "py_int (JStr (CHR 0x1C # ''12'')) = Inl ValueError \<and>
   load_map (Contents (JsonText (JObj [(''a'', JInt 1), (''b'', JStr (CHR 0x1C # ''12''))]))) =
     Inr [] \<and>
   load_map (Contents (JsonText (JArr [JInt 1]))) = Inr [] \<and>
   read_map (Contents (JsonText (JObj [(''a'', JInt 1), (''b'', JStr ''12'')]))) =
     Inr [(''a'', 1), (''b'', 12)] \<and>
   load_map (Contents (JsonText (JObj [(''a'', JInt 1), (''b'', JStr ''12'')]))) =
     Inr [(''a'', 1), (''b'', 12)]"
proof -
  let ?bad = "[(''a'', JInt 1), (''b'', JStr (CHR 0x1C # ''12''))]"
  let ?good = "Contents (JsonText (JObj [(''a'', JInt 1), (''b'', JStr ''12'')]))"
  note t = load_map_all_or_nothing [of ?bad "JArr [JInt 1]" ?good]
  have 1: "py_int (JStr (CHR 0x1C # ''12'')) = Inl ValueError"
    by (simp add: int_of_str_separator)
  have 2: "read_map ?good = Inr [(''a'', 1), (''b'', 12)]"
    by (simp add: eval_defs)
  have "(''b'', JStr (CHR 0x1C # ''12'')) \<in> set ?bad"
    by simp
  with 1 have "\<exists>k v ex. (k, v) \<in> set ?bad \<and> py_int v = Inl ex"
    by (intro exI conjI)
  from t [THEN conjunct1, rule_format, OF this]
  have 3: "load_map (Contents (JsonText (JObj ?bad))) = Inr []" .
  have "\<not> is_dict (JArr [JInt 1])" by simp
  from t [THEN conjunct2, THEN conjunct1, rule_format, OF this]
  have 4: "load_map (Contents (JsonText (JArr [JInt 1]))) = Inr []" .
  from t [THEN conjunct2, THEN conjunct2, rule_format, OF 2]
  have 5: "load_map ?good = Inr [(''a'', 1), (''b'', 12)]"
    by (rule conjunct1)
  from 1 2 3 4 5 show ?thesis by simp
qed

section \<open>Dispatching actions\<close>

lemma menu_actions_SetMapping:
  "SetMapping k n \<in> set (menu_actions st) \<longleftrightarrow>
     k \<in> fp ` set (mons st) \<and> 1 \<le> n \<and> n \<le> max_choice st"
proof -
  have "SetMapping k n \<notin> set (concat (map (\<lambda>r. snd (snd r)) (dpi_menu st)))"
    by (auto simp: dpi_menu_def Let_def)
  moreover have "SetMapping k n \<notin> set (audio_menu pool)" for pool
    by (auto simp: audio_menu_def)
  moreover have
    "SetMapping k n \<in> set (concat (map (\<lambda>r. map (\<lambda>c. snd (snd c)) (snd (snd r))) (map_menu st)))
       \<longleftrightarrow> k \<in> fp ` set (mons st) \<and> 1 \<le> n \<and> n \<le> max_choice st"
    by (auto simp: map_menu_def Let_def image_iff)
  ultimately show ?thesis
    by (simp add: menu_actions_def)
qed

lemma dispatch_outcome:
  "fst (dispatch e (SetDpi pct idx) w) = set_dpi e pct idx"
  "fst (dispatch e (SetAudio device_id role) w) = set_default_device e device_id role"
  "fst (dispatch e (SetMapping k n) w) = Inr ()"
  by (simp_all add: set_dpi_work_def set_audio_work_def set_mapping_unfold)

text \<open>
  C7, as amended. The menu offers the set-mapping action only for the target indices
  from 1 to the larger of 8 and the number of monitors, so an index outside the preset
  range is never dispatched from it. \<^verbatim>\<open>set_mapping\<close> itself checks no range: for every
  fingerprint and every index it returns without an error, puts the entry into the
  in-memory table, and saves the merged table to the mapping file.
\<close>

theorem set_mapping_range:
  "(\<forall>k n. SetMapping k n \<in> set (menu_actions st) \<longrightarrow>
      1 \<le> n \<and> n \<le> max 8 (int (length (mons st)))) \<and>
   fst (set_mapping e k' n' w) = Inr () \<and>
   idx_map (state (snd (set_mapping e k' n' w))) = AList.update k' n' (idx_map (state w)) \<and>
   map_of (idx_map (state (snd (set_mapping e k' n' w)))) k' = Some n' \<and>
   (map_write e = NoFault \<longrightarrow>
      map_file (snd (set_mapping e k' n' w)) =
        Contents (JsonText (dump (AList.update k' n' (idx_map (state w))))))"
  by (simp add: menu_actions_SetMapping max_choice_def MAX_IDX_CHOICES_def
      set_mapping_unfold refresh_state_async_def save_map_keeps_state save_map_NoFault
      AList.update_conv')

theorem set_mapping_range_witness:
  "SetMapping ''ACM|0A1B|S2'' 8 \<in> set (menu_actions (state two_monitors_world)) \<and>
   (1::int) \<le> 8 \<and> (8::int) \<le> max 8 (int (length (mons (state two_monitors_world)))) \<and>
   map_write quiet_env = NoFault \<and>
   map_file (snd (set_mapping quiet_env ''ACM|0A1B|S2'' 8 two_monitors_world)) =
     Contents (JsonText (JObj [(''ACM|0A1B|S1'', JInt 7), (''ACM|0A1B|S2'', JInt 8)]))"
proof -
  have 1: "SetMapping ''ACM|0A1B|S2'' 8 \<in> set (menu_actions (state two_monitors_world))"
    by (simp add: menu_actions_SetMapping max_choice_def MAX_IDX_CHOICES_def eval_defs)
  have 2: "map_write quiet_env = NoFault"
    by (simp add: quiet_env_def)
  have 3: "dump (AList.update ''ACM|0A1B|S2'' 8 (idx_map (state two_monitors_world))) =
      JObj [(''ACM|0A1B|S1'', JInt 7), (''ACM|0A1B|S2'', JInt 8)]"
    by (simp add: dump_def two_monitors_world_def)
  from set_mapping_range [of "state two_monitors_world" quiet_env "''ACM|0A1B|S2''" 8
      two_monitors_world] 1 2 3
  show ?thesis by simp
qed

text \<open>
  The claim as it was stated fails: with two monitors the preset range is 1 to 8, and
  dispatching the set-mapping action for index 99 changes the in-memory table and the
  mapping file.
\<close>

theorem set_mapping_out_of_range_changes_table:
  "max_choice (state two_monitors_world) = 8 \<and>
   idx_map (state two_monitors_world) = [(''ACM|0A1B|S1'', 7)] \<and>
   map_file two_monitors_world = Contents (JsonText (JObj [(''ACM|0A1B|S1'', JInt 7)])) \<and>
   dispatch quiet_env (SetMapping ''ACM|0A1B|S2'' 99) two_monitors_world =
     (Inr (), two_monitors_world
        \<lparr>state := (state two_monitors_world)
           \<lparr>idx_map := [(''ACM|0A1B|S1'', 7), (''ACM|0A1B|S2'', 99)]\<rparr>,
         map_file :=
           Contents (JsonText (JObj [(''ACM|0A1B|S1'', JInt 7), (''ACM|0A1B|S2'', JInt 99)])),
         refresh_threads := 1\<rparr>)"
  by (simp add: max_choice_def MAX_IDX_CHOICES_def set_mapping_def save_map_def write_map_def
      dump_def refresh_state_async_def eval_defs)

text \<open>
  C8. Every dispatched mutation action (set default audio device, set scaling, set
  mapping) starts exactly one refresh on completion, whatever the outcome of the
  underlying mutation call, a return or an exception.
\<close>

theorem dispatch_starts_one_refresh:
  "refresh_threads (snd (dispatch e a w)) = Suc (refresh_threads w)"
  by (cases a)
    (simp_all add: set_dpi_work_def set_audio_work_def refresh_state_async_def
      set_mapping_unfold save_map_keeps_threads)

theorem dispatch_starts_one_refresh_witness:
  "dispatch failing_env (SetDpi 150 2) empty_world =
     (Inl OSError, empty_world\<lparr>refresh_threads := 1\<rparr>) \<and>
   dispatch quiet_env (SetDpi 150 2) empty_world =
     (Inr (), empty_world\<lparr>refresh_threads := 1\<rparr>) \<and>
   refresh_threads (snd (dispatch failing_env (SetDpi 150 2) empty_world)) =
     Suc (refresh_threads empty_world)"
proof -
  have "dispatch failing_env (SetDpi 150 2) empty_world =
     (Inl OSError, empty_world\<lparr>refresh_threads := 1\<rparr>)"
    by (simp add: set_dpi_work_def set_dpi_def refresh_state_async_def failing_env_def
        quiet_env_def empty_world_def)
  moreover have "dispatch quiet_env (SetDpi 150 2) empty_world =
     (Inr (), empty_world\<lparr>refresh_threads := 1\<rparr>)"
    by (simp add: set_dpi_work_def set_dpi_def refresh_state_async_def
        quiet_env_def empty_world_def)
  ultimately show ?thesis
    using dispatch_starts_one_refresh [of failing_env "SetDpi 150 2" empty_world]
    by simp
qed

end
